theory Spec2Isabelle
  imports Complex_Main
begin

section \<open>Offer optimizer: data model\<close>

text \<open>
  Embedding of \<^verbatim>\<open>optimizer_api.py\<close>. A finite Python float is read as a real number
  (rounding is not modelled); the special values the program creates or may receive back
  from the solver are separate constructors of \<open>pyfloat\<close>. The pydantic classes are
  records, the enum is a datatype, every exception is a value.
\<close>

datatype ModelCategory = RETENTION | GROWTH | ACQUISITION | OTHER

record Offer =
  offer_name :: string
  price :: real
  volume :: real
  conversion_rate :: real

record ModelInput =
  model_name :: string
  model_probability :: real
  model_category :: ModelCategory
  available_offers :: "Offer list"

record OptimizationRequest =
  customer_id :: string
  copcar :: real
  models :: "ModelInput list"

text \<open>
  A float that may be infinite or not a number: \<^verbatim>\<open>float('-inf')\<close> is \<open>NegInf\<close>.
\<close>

datatype pyfloat = NegInf | Fin real | PosInf | NaN

text \<open>Unary minus, \<^verbatim>\<open>>\<close> and \<^verbatim>\<open>>=\<close> of Python floats: a comparison with NaN is false.\<close>

fun fneg :: "pyfloat \<Rightarrow> pyfloat" where
  "fneg NegInf = PosInf"
| "fneg (Fin a) = Fin (- a)"
| "fneg PosInf = NegInf"
| "fneg NaN = NaN"

fun fgt :: "pyfloat \<Rightarrow> pyfloat \<Rightarrow> bool" where
  "fgt NaN b = False"
| "fgt a NaN = False"
| "fgt NegInf b = False"
| "fgt a NegInf = True"
| "fgt a PosInf = False"
| "fgt PosInf b = True"
| "fgt (Fin a) (Fin b) = (a > b)"

fun fge :: "pyfloat \<Rightarrow> pyfloat \<Rightarrow> bool" where
  "fge NaN b = False"
| "fge a NaN = False"
| "fge a NegInf = True"
| "fge PosInf b = True"
| "fge NegInf b = False"
| "fge a PosInf = False"
| "fge (Fin a) (Fin b) = (a \<ge> b)"

record OptimizationResponse =
  resp_customer_id :: string
  resp_copcar :: real
  opt_profit :: pyfloat
  expected_profit :: real
  resp_model_name :: string
  resp_offer_name :: string
  offer_price :: real
  actual_offer_price :: real
  offer_volume :: real

text \<open>
  Exceptions, with the message that \<^verbatim>\<open>str(e)\<close> gives; \<open>SolverError\<close> stands for
  whatever the numerical solver may raise. \<open>HTTPException\<close> carries the status code
  and the detail.
\<close>

datatype exn =
    ValueError string
  | ZeroDivisionError string
  | AttributeError string
  | ValidationError string
  | SolverError string

fun str :: "exn \<Rightarrow> string" where
  "str (ValueError s) = s"
| "str (ZeroDivisionError s) = s"
| "str (AttributeError s) = s"
| "str (ValidationError s) = s"
| "str (SolverError s) = s"

datatype error = HTTPException nat string

text \<open>The field constraints of the pydantic models (\<^verbatim>\<open>Field(..., gt=0)\<close> and so on).\<close>

definition valid_Offer :: "Offer \<Rightarrow> bool" where
  "valid_Offer offer \<longleftrightarrow>
     price offer > 0 \<and> volume offer > 0 \<and>
     conversion_rate offer > 0 \<and> conversion_rate offer \<le> 1"

definition valid_ModelInput :: "ModelInput \<Rightarrow> bool" where
  "valid_ModelInput model \<longleftrightarrow>
     model_probability model \<ge> 0 \<and> model_probability model \<le> 1 \<and>
     list_all valid_Offer (available_offers model)"

definition valid_OptimizationRequest :: "OptimizationRequest \<Rightarrow> bool" where
  "valid_OptimizationRequest request \<longleftrightarrow>
     copcar request > 0 \<and> list_all valid_ModelInput (models request)"

section \<open>The objective evaluator\<close>

record Weights =
  profit :: real
  retention :: real
  efficiency :: real
  probability :: real

record OfferOptimizer =
  k :: real
  weights :: Weights

text \<open>\<^verbatim>\<open>OfferOptimizer.__init__\<close>; the module creates one instance, \<^verbatim>\<open>optimizer\<close>.\<close>

definition optimizer :: OfferOptimizer where
  "optimizer =
     \<lparr>k = 5.0,
      weights = \<lparr>profit = 1.0, retention = 1.5, efficiency = 0.3, probability = 0.5\<rparr>\<rparr>"

definition sigmoid :: "OfferOptimizer \<Rightarrow> real \<Rightarrow> real" where
  "sigmoid self x = 1 / (1 + exp (- x))"

text \<open>
  \<^verbatim>\<open>price/copcar\<close> on Python floats raises ZeroDivisionError when \<^verbatim>\<open>copcar\<close> is zero.
\<close>

definition calculate_retention_score ::
  "OfferOptimizer \<Rightarrow> real \<Rightarrow> real \<Rightarrow> real \<Rightarrow> exn + real" where
  "calculate_retention_score self p c churn_prob =
     (if c = 0 then Inl (ZeroDivisionError ''float division by zero'')
      else
        (let dilution_rate = 1 - (p / c)
         in Inr ((1 - churn_prob) * sigmoid self (k self * dilution_rate))))"

definition evaluate_offer ::
  "OfferOptimizer \<Rightarrow> real \<Rightarrow> Offer \<Rightarrow> ModelInput \<Rightarrow> real \<Rightarrow> exn + pyfloat" where
  "evaluate_offer self p offer model c =
     (if model_category model = RETENTION then
        (if p \<ge> c then Inr NegInf
         else
           (case calculate_retention_score self p c (1 - model_probability model) of
              Inl e \<Rightarrow> Inl e
            | Inr retention_score \<Rightarrow>
                (let dilution_rate = 1 - (p / c)
                 in Inr (Fin
                      (profit (weights self) * (c - p) * conversion_rate offer +
                       retention (weights self) * retention_score * c +
                       efficiency (weights self) * (conversion_rate offer * dilution_rate) +
                       probability (weights self) * model_probability model)))))
      else
        (if p \<ge> c then Inr NegInf
         else
           Inr (Fin
             (profit (weights self) * (c - p) * conversion_rate offer +
              efficiency (weights self) * (conversion_rate offer * c / max p 0.01) +
              probability (weights self) * model_probability model))))"

section \<open>The offer selection optimizer\<close>

text \<open>
  What \<^verbatim>\<open>scipy.optimize.minimize\<close> returns: the fields of the result that the
  program reads (\<^verbatim>\<open>result.success\<close>, \<^verbatim>\<open>result.x[0]\<close>, \<^verbatim>\<open>result.fun\<close>).
\<close>

record OptimizeResult =
  res_success :: bool
  res_x :: real
  res_fun :: pyfloat

text \<open>
  The solver is a library outside the repository, so it is a parameter: it receives the
  function to minimise (which may raise), the initial guess and the bounds, the method
  and options being fixed by the call (\<^verbatim>\<open>method='SLSQP'\<close>, \<^verbatim>\<open>ftol=1e-6\<close>,
  \<^verbatim>\<open>maxiter=100\<close>). It returns a result or raises.
\<close>

type_synonym solver =
  "(real \<Rightarrow> exn + pyfloat) \<Rightarrow> real \<Rightarrow> real \<times> real \<Rightarrow> exn + OptimizeResult"

text \<open>The four local variables that hold the best candidate seen so far.\<close>

record Best =
  best_value :: pyfloat
  best_model :: "ModelInput option"
  best_offer :: "Offer option"
  best_price :: "real option"

definition initial_best :: Best where
  "initial_best =
     \<lparr>best_value = NegInf, best_model = None, best_offer = None, best_price = None\<rparr>"

text \<open>
  The test at the head of the inner loop body: a retention offer whose catalog price is
  not below \<open>copcar\<close> is passed over (\<^verbatim>\<open>continue\<close>).
\<close>

definition skipped :: "real \<Rightarrow> ModelInput \<Rightarrow> Offer \<Rightarrow> bool" where
  "skipped c model offer \<longleftrightarrow> model_category model = RETENTION \<and> price offer \<ge> c"

definition price_bounds :: "real \<Rightarrow> ModelInput \<Rightarrow> Offer \<Rightarrow> real \<times> real" where
  "price_bounds c model offer =
     (if model_category model = RETENTION then
        (min (c * 0.3) (price offer * 0.8), min (c * 0.9) (price offer))
      else
        (min (c * 0.5) (price offer * 0.8), min (c * 0.95) (price offer)))"

text \<open>The function handed to the solver: \<^verbatim>\<open>lambda p: -self.evaluate_offer(p[0], ...)\<close>.\<close>

definition objective ::
  "OfferOptimizer \<Rightarrow> real \<Rightarrow> ModelInput \<Rightarrow> Offer \<Rightarrow> real \<Rightarrow> exn + pyfloat" where
  "objective self c model offer =
     (\<lambda>p. case evaluate_offer self p offer model c of
             Inl e \<Rightarrow> Inl e
           | Inr v \<Rightarrow> Inr (fneg v))"

text \<open>The call of \<^verbatim>\<open>minimize\<close> for one offer, started at the midpoint of the bounds.\<close>

definition minimize_call ::
  "OfferOptimizer \<Rightarrow> solver \<Rightarrow> real \<Rightarrow> ModelInput \<Rightarrow> Offer \<Rightarrow> exn + OptimizeResult" where
  "minimize_call self solve c model offer =
     (let bounds = price_bounds c model offer;
          initial_price = (fst bounds + snd bounds) / 2
      in solve (objective self c model offer) initial_price bounds)"

text \<open>The body of the inner loop, for one offer of one model.\<close>

definition offer_step ::
  "OfferOptimizer \<Rightarrow> solver \<Rightarrow> real \<Rightarrow> ModelInput \<Rightarrow> Best \<Rightarrow> Offer \<Rightarrow> exn + Best" where
  "offer_step self solve c model acc offer =
     (if skipped c model offer then Inr acc
      else
        (case minimize_call self solve c model offer of
           Inl e \<Rightarrow> Inl e
         | Inr result \<Rightarrow>
             (if res_success result then
                (let value = fneg (res_fun result)
                 in if fgt value (best_value acc) then
                      Inr \<lparr>best_value = value, best_model = Some model,
                           best_offer = Some offer, best_price = Some (res_x result)\<rparr>
                    else Inr acc)
              else Inr acc)))"

text \<open>The two nested loops; an exception leaves both.\<close>

fun offers_loop ::
  "OfferOptimizer \<Rightarrow> solver \<Rightarrow> real \<Rightarrow> ModelInput \<Rightarrow> Best \<Rightarrow> Offer list \<Rightarrow> exn + Best" where
  "offers_loop self solve c model acc [] = Inr acc"
| "offers_loop self solve c model acc (offer # rest) =
     (case offer_step self solve c model acc offer of
        Inl e \<Rightarrow> Inl e
      | Inr acc' \<Rightarrow> offers_loop self solve c model acc' rest)"

fun models_loop ::
  "OfferOptimizer \<Rightarrow> solver \<Rightarrow> real \<Rightarrow> Best \<Rightarrow> ModelInput list \<Rightarrow> exn + Best" where
  "models_loop self solve c acc [] = Inr acc"
| "models_loop self solve c acc (model # rest) =
     (case offers_loop self solve c model acc (available_offers model) of
        Inl e \<Rightarrow> Inl e
      | Inr acc' \<Rightarrow> models_loop self solve c acc' rest)"

text \<open>
  \<^verbatim>\<open>optimize_offers\<close>: the loops, the test \<^verbatim>\<open>if not best_offer\<close> (an \<^verbatim>\<open>Offer\<close> object is
  always true, so only \<^verbatim>\<open>None\<close> fails it), the response, and the handler that turns
  every exception into \<^verbatim>\<open>HTTPException(status_code=500, detail=str(e))\<close>. Reading
  \<^verbatim>\<open>best_model.model_name\<close> on \<^verbatim>\<open>None\<close> raises AttributeError, and a response whose
  \<^verbatim>\<open>offer_price\<close> is \<^verbatim>\<open>None\<close> fails validation; the messages of these two are
  shortened here, and \<open>best_set_together\<close> below shows that neither is ever raised.
\<close>

definition optimize_offers ::
  "OfferOptimizer \<Rightarrow> solver \<Rightarrow> OptimizationRequest \<Rightarrow> error + OptimizationResponse" where
  "optimize_offers self solve request =
     (case models_loop self solve (copcar request) initial_best (models request) of
        Inl e \<Rightarrow> Inl (HTTPException 500 (str e))
      | Inr acc \<Rightarrow>
          (case best_offer acc of
             None \<Rightarrow> Inl (HTTPException 500 (str (ValueError ''No suitable offer found'')))
           | Some bo \<Rightarrow>
               (case best_model acc of
                  None \<Rightarrow>
                    Inl (HTTPException 500
                      (str (AttributeError
                        ''NoneType object has no attribute model_name'')))
                | Some bm \<Rightarrow>
                    (case best_price acc of
                       None \<Rightarrow>
                         Inl (HTTPException 500
                           (str (ValidationError
                             ''validation error for OptimizationResponse'')))
                     | Some bp \<Rightarrow>
                         Inr \<lparr>resp_customer_id = customer_id request,
                              resp_copcar = copcar request,
                              opt_profit = best_value acc,
                              expected_profit = copcar request - price bo,
                              resp_model_name = model_name bm,
                              resp_offer_name = offer_name bo,
                              offer_price = bp,
                              actual_offer_price = price bo,
                              offer_volume = volume bo\<rparr>))))"

section \<open>Notions used to state the properties\<close>

text \<open>
  The (model, offer) pairs of a request in the order in which the nested loops visit them.
\<close>

definition pairs :: "OptimizationRequest \<Rightarrow> (ModelInput \<times> Offer) list" where
  "pairs request =
     concat (map (\<lambda>model. map (Pair model) (available_offers model)) (models request))"

text \<open>
  The outcome of a pair: its score \<^verbatim>\<open>-result.fun\<close> and its optimized price when the
  pair is not passed over and the solver reports success; nothing otherwise.
\<close>

definition outcome ::
  "OfferOptimizer \<Rightarrow> solver \<Rightarrow> real \<Rightarrow> ModelInput \<Rightarrow> Offer \<Rightarrow> (pyfloat \<times> real) option" where
  "outcome self solve c model offer =
     (if skipped c model offer then None
      else
        (case minimize_call self solve c model offer of
           Inl e \<Rightarrow> None
         | Inr result \<Rightarrow>
             if res_success result then Some (fneg (res_fun result), res_x result)
             else None))"

text \<open>
  The box constraint of a bounded solver: a result reported as successful lies within the
  bounds it was given.
\<close>

definition respects_bounds :: "solver \<Rightarrow> bool" where
  "respects_bounds solve \<longleftrightarrow>
     (\<forall>f x0 lo hi result.
        solve f x0 (lo, hi) = Inr result \<and> res_success result \<longrightarrow>
        lo \<le> res_x result \<and> res_x result \<le> hi)"

text \<open>
  The contract of a bounded solver. On a problem whose function is finite throughout the
  bounds, started within them, it returns without raising; a result it reports as
  successful lies within the bounds and carries the value of the function at its point.
\<close>

definition bounded_solver :: "solver \<Rightarrow> bool" where
  "bounded_solver solve \<longleftrightarrow>
     (\<forall>f x0 lo hi.
        lo \<le> x0 \<and> x0 \<le> hi \<and> (\<forall>p. lo \<le> p \<and> p \<le> hi \<longrightarrow> (\<exists>a. f p = Inr (Fin a))) \<longrightarrow>
        (\<exists>result.
           solve f x0 (lo, hi) = Inr result \<and>
           (res_success result \<longrightarrow>
              lo \<le> res_x result \<and> res_x result \<le> hi \<and>
              f (res_x result) = Inr (res_fun result))))"

text \<open>
  The nested loops as one loop over the pairs; \<open>models_loop_pairs\<close> below shows that it
  computes what \<open>models_loop\<close> computes.
\<close>

fun pairs_loop ::
  "OfferOptimizer \<Rightarrow> solver \<Rightarrow> real \<Rightarrow> Best \<Rightarrow> (ModelInput \<times> Offer) list \<Rightarrow> exn + Best" where
  "pairs_loop self solve c acc [] = Inr acc"
| "pairs_loop self solve c acc ((model, offer) # rest) =
     (case offer_step self solve c model acc offer of
        Inl e \<Rightarrow> Inl e
      | Inr acc' \<Rightarrow> pairs_loop self solve c acc' rest)"

section \<open>The call with the state outside the program made explicit\<close>

text \<open>
  \<^verbatim>\<open>minimize\<close> is a call into a library: what it answers may depend on state that the
  program does not see (the state of the library, a random generator, earlier calls). Here
  the solver takes that state and returns it updated, and the loops thread it through the
  calls in the order in which the program makes them. The state is still updated when the
  solver raises.
\<close>

type_synonym 's stateful_solver =
  "(real \<Rightarrow> exn + pyfloat) \<Rightarrow> real \<Rightarrow> real \<times> real \<Rightarrow> 's \<Rightarrow> (exn + OptimizeResult) \<times> 's"

definition minimize_call_st ::
  "OfferOptimizer \<Rightarrow> 's stateful_solver \<Rightarrow> real \<Rightarrow> ModelInput \<Rightarrow> Offer \<Rightarrow> 's \<Rightarrow>
   (exn + OptimizeResult) \<times> 's" where
  "minimize_call_st self solve c model offer s =
     (let bounds = price_bounds c model offer;
          initial_price = (fst bounds + snd bounds) / 2
      in solve (objective self c model offer) initial_price bounds s)"

definition offer_step_st ::
  "OfferOptimizer \<Rightarrow> 's stateful_solver \<Rightarrow> real \<Rightarrow> ModelInput \<Rightarrow> Best \<Rightarrow> Offer \<Rightarrow> 's \<Rightarrow>
   (exn + Best) \<times> 's" where
  "offer_step_st self solve c model acc offer s =
     (if skipped c model offer then (Inr acc, s)
      else
        (case minimize_call_st self solve c model offer s of
           (Inl e, s') \<Rightarrow> (Inl e, s')
         | (Inr result, s') \<Rightarrow>
             (if res_success result then
                (let value = fneg (res_fun result)
                 in if fgt value (best_value acc) then
                      (Inr \<lparr>best_value = value, best_model = Some model,
                            best_offer = Some offer, best_price = Some (res_x result)\<rparr>, s')
                    else (Inr acc, s'))
              else (Inr acc, s'))))"

fun offers_loop_st ::
  "OfferOptimizer \<Rightarrow> 's stateful_solver \<Rightarrow> real \<Rightarrow> ModelInput \<Rightarrow> Best \<Rightarrow> Offer list \<Rightarrow> 's \<Rightarrow>
   (exn + Best) \<times> 's" where
  "offers_loop_st self solve c model acc [] s = (Inr acc, s)"
| "offers_loop_st self solve c model acc (offer # rest) s =
     (case offer_step_st self solve c model acc offer s of
        (Inl e, s') \<Rightarrow> (Inl e, s')
      | (Inr acc', s') \<Rightarrow> offers_loop_st self solve c model acc' rest s')"

fun models_loop_st ::
  "OfferOptimizer \<Rightarrow> 's stateful_solver \<Rightarrow> real \<Rightarrow> Best \<Rightarrow> ModelInput list \<Rightarrow> 's \<Rightarrow>
   (exn + Best) \<times> 's" where
  "models_loop_st self solve c acc [] s = (Inr acc, s)"
| "models_loop_st self solve c acc (model # rest) s =
     (case offers_loop_st self solve c model acc (available_offers model) s of
        (Inl e, s') \<Rightarrow> (Inl e, s')
      | (Inr acc', s') \<Rightarrow> models_loop_st self solve c acc' rest s')"

text \<open>
  What \<^verbatim>\<open>optimize_offers\<close> does after the loops (the test of \<^verbatim>\<open>best_offer\<close>, the
  response, the handler), as a function of what the loops produced;
  \<open>optimize_offers_finish\<close> below shows that \<open>optimize_offers\<close> is the loops followed by it.
\<close>

definition finish :: "OptimizationRequest \<Rightarrow> exn + Best \<Rightarrow> error + OptimizationResponse" where
  "finish request looped =
     (case looped of
        Inl e \<Rightarrow> Inl (HTTPException 500 (str e))
      | Inr acc \<Rightarrow>
          (case best_offer acc of
             None \<Rightarrow> Inl (HTTPException 500 (str (ValueError ''No suitable offer found'')))
           | Some bo \<Rightarrow>
               (case best_model acc of
                  None \<Rightarrow>
                    Inl (HTTPException 500
                      (str (AttributeError
                        ''NoneType object has no attribute model_name'')))
                | Some bm \<Rightarrow>
                    (case best_price acc of
                       None \<Rightarrow>
                         Inl (HTTPException 500
                           (str (ValidationError
                             ''validation error for OptimizationResponse'')))
                     | Some bp \<Rightarrow>
                         Inr \<lparr>resp_customer_id = customer_id request,
                              resp_copcar = copcar request,
                              opt_profit = best_value acc,
                              expected_profit = copcar request - price bo,
                              resp_model_name = model_name bm,
                              resp_offer_name = offer_name bo,
                              offer_price = bp,
                              actual_offer_price = price bo,
                              offer_volume = volume bo\<rparr>))))"

definition optimize_offers_st ::
  "OfferOptimizer \<Rightarrow> 's stateful_solver \<Rightarrow> OptimizationRequest \<Rightarrow> 's \<Rightarrow>
   (error + OptimizationResponse) \<times> 's" where
  "optimize_offers_st self solve request s =
     (case models_loop_st self solve (copcar request) initial_best (models request) s of
        (looped, s') \<Rightarrow> (finish request looped, s'))"

text \<open>
  The module keeps one optimizer, \<^verbatim>\<open>optimizer = OfferOptimizer()\<close>, and the endpoint
  \<^verbatim>\<open>optimize_offer\<close> calls \<^verbatim>\<open>optimizer.optimize_offers(request)\<close> on it. The world between
  two calls is that object and the state behind the solver. The methods read \<^verbatim>\<open>self.k\<close>
  and \<^verbatim>\<open>self.weights\<close> and assign neither, so a call leaves the object as it was.
\<close>

record 's World =
  the_optimizer :: OfferOptimizer
  solver_state :: 's

definition optimize_offer ::
  "'s stateful_solver \<Rightarrow> OptimizationRequest \<Rightarrow> 's World \<Rightarrow>
   (error + OptimizationResponse) \<times> 's World" where
  "optimize_offer solve request w =
     (case optimize_offers_st (the_optimizer w) solve request (solver_state w) of
        (response, s') \<Rightarrow> (response, w\<lparr>solver_state := s'\<rparr>))"

text \<open>A solver is deterministic when its answer does not depend on the state.\<close>

definition deterministic_solver :: "'s stateful_solver \<Rightarrow> bool" where
  "deterministic_solver solve \<longleftrightarrow>
     (\<forall>f x0 bounds s s'. fst (solve f x0 bounds s) = fst (solve f x0 bounds s'))"

section \<open>Concrete solvers and requests\<close>

text \<open>
  A stand-in solver for concrete runs: it evaluates the function once, at the initial
  guess, and reports that point; it reports failure when the guess is outside the bounds.
\<close>

definition guess_solver :: solver where
  "guess_solver f x0 bounds =
     (case f x0 of
        Inl e \<Rightarrow> Inl e
      | Inr v \<Rightarrow>
          Inr \<lparr>res_success = (fst bounds \<le> x0 \<and> x0 \<le> snd bounds),
               res_x = x0, res_fun = v\<rparr>)"

text \<open>
  Two solvers with a state, the number of calls made so far. The first answers as
  \<open>guess_solver\<close> does, whatever the count; the second reports success on every other
  call only.
\<close>

definition counting_solver :: "nat stateful_solver" where
  "counting_solver f x0 bounds n = (guess_solver f x0 bounds, Suc n)"

definition alternating_solver :: "nat stateful_solver" where
  "alternating_solver f x0 bounds n =
     (case f x0 of
        Inl e \<Rightarrow> (Inl e, Suc n)
      | Inr v \<Rightarrow> (Inr \<lparr>res_success = even n, res_x = x0, res_fun = v\<rparr>, Suc n))"

text \<open>
  Two growth offers with equal scores and a weaker offer of another model.
\<close>

definition tie_request :: OptimizationRequest where
  "tie_request =
     \<lparr>customer_id = ''CUST001'', copcar = 200,
      models =
        [\<lparr>model_name = ''upsell_predictor'', model_probability = 0.4,
          model_category = GROWTH,
          available_offers =
            [\<lparr>offer_name = ''Growth Offer 1'', price = 150, volume = 200,
              conversion_rate = 0.2\<rparr>,
             \<lparr>offer_name = ''Growth Offer 2'', price = 150, volume = 300,
              conversion_rate = 0.2\<rparr>]\<rparr>,
         \<lparr>model_name = ''cross_sell'', model_probability = 0.4,
          model_category = OTHER,
          available_offers =
            [\<lparr>offer_name = ''Other Offer 1'', price = 150, volume = 100,
              conversion_rate = 0.1\<rparr>]\<rparr>]\<rparr>"

definition tie_response :: OptimizationResponse where
  "tie_response =
     \<lparr>resp_customer_id = ''CUST001'', resp_copcar = 200, opt_profit = Fin 15.296,
      expected_profit = 50, resp_model_name = ''upsell_predictor'',
      resp_offer_name = ''Growth Offer 1'', offer_price = 125,
      actual_offer_price = 150, offer_volume = 200\<rparr>"

text \<open>
  A retention model at \<open>copcar = 200\<close> with one offer priced above \<open>copcar\<close> and one
  below it; the same model with the first offer alone; a growth offer priced above
  \<open>copcar\<close>.
\<close>

definition retention_request :: OptimizationRequest where
  "retention_request =
     \<lparr>customer_id = ''CUST002'', copcar = 200,
      models =
        [\<lparr>model_name = ''churn_predictor'', model_probability = 0.8,
          model_category = RETENTION,
          available_offers =
            [\<lparr>offer_name = ''Retention Offer 1'', price = 250, volume = 200,
              conversion_rate = 0.2\<rparr>,
             \<lparr>offer_name = ''Retention Offer 2'', price = 150, volume = 200,
              conversion_rate = 0.2\<rparr>]\<rparr>]\<rparr>"

definition infeasible_request :: OptimizationRequest where
  "infeasible_request =
     \<lparr>customer_id = ''CUST004'', copcar = 200,
      models =
        [\<lparr>model_name = ''churn_predictor'', model_probability = 0.8,
          model_category = RETENTION,
          available_offers =
            [\<lparr>offer_name = ''Retention Offer 1'', price = 250, volume = 200,
              conversion_rate = 0.2\<rparr>]\<rparr>]\<rparr>"

definition costly_growth_request :: OptimizationRequest where
  "costly_growth_request =
     \<lparr>customer_id = ''CUST003'', copcar = 200,
      models =
        [\<lparr>model_name = ''upsell_predictor'', model_probability = 0.4,
          model_category = GROWTH,
          available_offers =
            [\<lparr>offer_name = ''Growth Offer 1'', price = 250, volume = 200,
              conversion_rate = 0.2\<rparr>]\<rparr>]\<rparr>"

section \<open>The objective evaluator: properties\<close>

text \<open>
  C2. Below \<open>copcar\<close>, for a model of category retention, \<open>evaluate_offer\<close> of the
  module's optimizer returns
  \<open>1.0 * (copcar - price) * conversion_rate + 1.5 * retention_score * copcar +
   0.3 * conversion_rate * dilution_rate + 0.5 * probability\<close>,
  where \<open>dilution_rate = 1 - price / copcar\<close>,
  \<open>retention_score = (1 - churn_prob) * sigmoid (5.0 * dilution_rate)\<close>,
  \<open>churn_prob = 1 - probability\<close> and \<open>sigmoid x = 1 / (1 + e\<^sup>-\<^sup>x)\<close>.
  The formula divides by \<open>copcar\<close>, so \<open>copcar\<close> is not zero.
\<close>

theorem evaluate_offer_retention:
  assumes "p < c" and "c \<noteq> 0" and "model_category model = RETENTION"
  shows "evaluate_offer optimizer p offer model c =
           Inr (Fin
             (let dilution_rate = 1 - p / c;
                  churn_prob = 1 - model_probability model;
                  retention_score = (1 - churn_prob) * (1 / (1 + exp (- (5.0 * dilution_rate))))
              in 1.0 * (c - p) * conversion_rate offer +
                 1.5 * retention_score * c +
                 0.3 * conversion_rate offer * dilution_rate +
                 0.5 * model_probability model))"
  using assms
  by (simp add: evaluate_offer_def calculate_retention_score_def sigmoid_def optimizer_def
      Let_def mult.commute)

theorem evaluate_offer_retention_witness:
  "(150::real) < 200 \<and> (200::real) \<noteq> 0 \<and>
   evaluate_offer optimizer 150
     \<lparr>offer_name = ''A'', price = 150, volume = 200, conversion_rate = 0.2\<rparr>
     \<lparr>model_name = ''churn_predictor'', model_probability = 0.8,
      model_category = RETENTION, available_offers = []\<rparr> 200 =
     Inr (Fin (10.415 + 240 * (1 / (1 + exp (- (5 / 4))))))"
  using evaluate_offer_retention [of 150 200
      "\<lparr>model_name = ''churn_predictor'', model_probability = 0.8,
        model_category = RETENTION, available_offers = []\<rparr>"
      "\<lparr>offer_name = ''A'', price = 150, volume = 200, conversion_rate = 0.2\<rparr>"]
  by (simp add: Let_def)

text \<open>
  C3. Below \<open>copcar\<close>, for a model whose category is not retention, \<open>evaluate_offer\<close>
  of the module's optimizer returns
  \<open>1.0 * (copcar - price) * conversion_rate +
   0.3 * conversion_rate * copcar / max price 0.01 + 0.5 * probability\<close>;
  and at every input (any optimizer, price, offer, model and copcar) the categories
  growth, acquisition and other give the same result.
\<close>

theorem evaluate_offer_non_retention:
  assumes "p < c" and "model_category model \<noteq> RETENTION"
  shows "evaluate_offer optimizer p offer model c =
           Inr (Fin
             (1.0 * (c - p) * conversion_rate offer +
              0.3 * conversion_rate offer * c / max p 0.01 +
              0.5 * model_probability model)) \<and>
         evaluate_offer self q offer' (model'\<lparr>model_category := GROWTH\<rparr>) d =
           evaluate_offer self q offer' (model'\<lparr>model_category := ACQUISITION\<rparr>) d \<and>
         evaluate_offer self q offer' (model'\<lparr>model_category := GROWTH\<rparr>) d =
           evaluate_offer self q offer' (model'\<lparr>model_category := OTHER\<rparr>) d"
  using assms
  by (simp add: evaluate_offer_def optimizer_def)

theorem evaluate_offer_non_retention_witness:
  "(100::real) < 200 \<and>
   evaluate_offer optimizer 100
     \<lparr>offer_name = ''G'', price = 150, volume = 200, conversion_rate = 0.2\<rparr>
     \<lparr>model_name = ''upsell_predictor'', model_probability = 0.4,
      model_category = GROWTH, available_offers = []\<rparr> 200 =
     Inr (Fin 20.32)"
  using evaluate_offer_non_retention [of 100 200
      "\<lparr>model_name = ''upsell_predictor'', model_probability = 0.4,
        model_category = GROWTH, available_offers = []\<rparr>"
      "\<lparr>offer_name = ''G'', price = 150, volume = 200, conversion_rate = 0.2\<rparr>"]
  by simp

text \<open>
  C4. For \<open>copcar > 0\<close>, \<open>evaluate_offer\<close> raises no exception at any price, offer and
  model, and its result is negative infinity exactly when \<open>price \<ge> copcar\<close>, whatever the
  category.
\<close>

theorem evaluate_offer_total:
  assumes "c > 0"
  shows "(\<exists>v. evaluate_offer self p offer model c = Inr v) \<and>
         (evaluate_offer self p offer model c = Inr NegInf \<longleftrightarrow> p \<ge> c)"
  using assms
  by (simp add: evaluate_offer_def calculate_retention_score_def Let_def)

theorem evaluate_offer_total_witness:
  "(200::real) > 0 \<and>
   evaluate_offer optimizer 250
     \<lparr>offer_name = ''A'', price = 150, volume = 200, conversion_rate = 0.2\<rparr>
     \<lparr>model_name = ''churn_predictor'', model_probability = 0.8,
      model_category = RETENTION, available_offers = []\<rparr> 200 = Inr NegInf"
  using evaluate_offer_total [of 200 optimizer 250
      "\<lparr>offer_name = ''A'', price = 150, volume = 200, conversion_rate = 0.2\<rparr>"
      "\<lparr>model_name = ''churn_predictor'', model_probability = 0.8,
        model_category = RETENTION, available_offers = []\<rparr>"]
  by simp

section \<open>The offer selection optimizer: supporting lemmas\<close>

lemmas run_defs =
  optimize_offers_def offer_step_def minimize_call_def price_bounds_def objective_def
  evaluate_offer_def calculate_retention_score_def sigmoid_def guess_solver_def
  optimizer_def skipped_def initial_best_def Let_def

subsection \<open>Comparison of floats\<close>

lemma fgt_not_fge: "fgt a b \<Longrightarrow> \<not> fgt d b \<Longrightarrow> \<not> fge d a"
  by (cases a; cases b; cases d) auto

lemma fgt_trans: "fgt a b \<Longrightarrow> fgt b d \<Longrightarrow> fgt a d"
  by (cases a; cases b; cases d) auto

lemma fgt_asym: "fgt a b \<Longrightarrow> \<not> fge b a"
  by (cases a; cases b) auto

subsection \<open>The loops\<close>

lemma pairs_loop_append:
  "pairs_loop self solve c acc (ps @ qs) =
     (case pairs_loop self solve c acc ps of
        Inl e \<Rightarrow> Inl e
      | Inr acc' \<Rightarrow> pairs_loop self solve c acc' qs)"
  by (induction ps arbitrary: acc) (auto split: sum.splits)

lemma offers_loop_pairs:
  "offers_loop self solve c model acc offers =
     pairs_loop self solve c acc (map (Pair model) offers)"
  by (induction offers arbitrary: acc) (auto split: sum.splits)

lemma models_loop_pairs:
  "models_loop self solve c acc ms =
     pairs_loop self solve c acc
       (concat (map (\<lambda>model. map (Pair model) (available_offers model)) ms))"
  by (induction ms arbitrary: acc)
     (auto simp: pairs_loop_append offers_loop_pairs split: sum.splits)

lemma offer_step_cases:
  assumes "offer_step self solve c model acc offer = Inr acc1"
  shows "(acc1 = acc \<and>
          (\<forall>v px. outcome self solve c model offer = Some (v, px) \<longrightarrow>
                   \<not> fgt v (best_value acc))) \<or>
         (\<exists>v px. outcome self solve c model offer = Some (v, px) \<and>
                  fgt v (best_value acc) \<and>
                  acc1 = \<lparr>best_value = v, best_model = Some model,
                          best_offer = Some offer, best_price = Some px\<rparr>)"
  using assms
  by (auto simp: offer_step_def outcome_def Let_def split: if_splits sum.splits)


lemma pairs_loop_first_best:
  assumes "pairs_loop self solve c acc ps = Inr acc'"
  shows "(acc' = acc \<and>
          (\<forall>(m, offer) \<in> set ps. \<forall>v px.
             outcome self solve c m offer = Some (v, px) \<longrightarrow> \<not> fgt v (best_value acc))) \<or>
         (\<exists>pre m offer post v px.
             ps = pre @ (m, offer) # post \<and>
             outcome self solve c m offer = Some (v, px) \<and>
             fgt v (best_value acc) \<and>
             acc' = \<lparr>best_value = v, best_model = Some m,
                     best_offer = Some offer, best_price = Some px\<rparr> \<and>
             (\<forall>(m', offer') \<in> set pre. \<forall>v' px'.
                outcome self solve c m' offer' = Some (v', px') \<longrightarrow> \<not> fge v' v) \<and>
             (\<forall>(m', offer') \<in> set post. \<forall>v' px'.
                outcome self solve c m' offer' = Some (v', px') \<longrightarrow> \<not> fgt v' v))"
  using assms
proof (induction ps arbitrary: acc)
  case Nil
  then show ?case by simp
next
  case (Cons q rest)
  obtain m0 o0 where q: "q = (m0, o0)" by (cases q)
  from Cons.prems q obtain acc1 where
    step: "offer_step self solve c m0 acc o0 = Inr acc1" and
    loop: "pairs_loop self solve c acc1 rest = Inr acc'"
    by (auto split: sum.splits)
  note ih = Cons.IH [OF loop]
  from offer_step_cases [OF step] show ?case
  proof (elim disjE conjE exE)
    assume same: "acc1 = acc"
      and low: "\<forall>v px. outcome self solve c m0 o0 = Some (v, px) \<longrightarrow> \<not> fgt v (best_value acc)"
    from ih show ?thesis
    proof (elim disjE conjE exE)
      assume "acc' = acc1"
        and "\<forall>(m, offer) \<in> set rest. \<forall>v px.
               outcome self solve c m offer = Some (v, px) \<longrightarrow> \<not> fgt v (best_value acc1)"
      with same low q show ?thesis by auto
    next
      fix pre m offer post v px
      assume split: "rest = pre @ (m, offer) # post"
        and out: "outcome self solve c m offer = Some (v, px)"
        and gt: "fgt v (best_value acc1)"
        and acc': "acc' = \<lparr>best_value = v, best_model = Some m,
                           best_offer = Some offer, best_price = Some px\<rparr>"
        and before: "\<forall>(m', offer') \<in> set pre. \<forall>v' px'.
                outcome self solve c m' offer' = Some (v', px') \<longrightarrow> \<not> fge v' v"
        and after: "\<forall>(m', offer') \<in> set post. \<forall>v' px'.
                outcome self solve c m' offer' = Some (v', px') \<longrightarrow> \<not> fgt v' v"
      have first: "\<forall>v' px'. outcome self solve c m0 o0 = Some (v', px') \<longrightarrow> \<not> fge v' v"
        using low gt same fgt_not_fge by blast
      have "q # rest = (q # pre) @ (m, offer) # post"
        using split by simp
      moreover have "\<forall>(m', offer') \<in> set (q # pre). \<forall>v' px'.
                outcome self solve c m' offer' = Some (v', px') \<longrightarrow> \<not> fge v' v"
        using first before q by simp
      ultimately show ?thesis
        using out gt same acc' after by blast
    qed
  next
    fix v0 px0
    assume out0: "outcome self solve c m0 o0 = Some (v0, px0)"
      and gt0: "fgt v0 (best_value acc)"
      and acc1: "acc1 = \<lparr>best_value = v0, best_model = Some m0,
                          best_offer = Some o0, best_price = Some px0\<rparr>"
    from ih show ?thesis
    proof (elim disjE conjE exE)
      assume "acc' = acc1"
        and rest: "\<forall>(m, offer) \<in> set rest. \<forall>v px.
               outcome self solve c m offer = Some (v, px) \<longrightarrow> \<not> fgt v (best_value acc1)"
      then have "q # rest = [] @ (m0, o0) # rest"
        and "acc' = \<lparr>best_value = v0, best_model = Some m0,
                      best_offer = Some o0, best_price = Some px0\<rparr>"
        and "\<forall>(m', offer') \<in> set rest. \<forall>v' px'.
                outcome self solve c m' offer' = Some (v', px') \<longrightarrow> \<not> fgt v' v0"
        using q acc1 by simp_all
      moreover have "\<forall>(m', offer') \<in> set ([] :: (ModelInput \<times> Offer) list). \<forall>v' px'.
                outcome self solve c m' offer' = Some (v', px') \<longrightarrow> \<not> fge v' v0"
        by simp
      ultimately show ?thesis
        using out0 gt0 by blast
    next
      fix pre m offer post v px
      assume split: "rest = pre @ (m, offer) # post"
        and out: "outcome self solve c m offer = Some (v, px)"
        and gt: "fgt v (best_value acc1)"
        and acc': "acc' = \<lparr>best_value = v, best_model = Some m,
                           best_offer = Some offer, best_price = Some px\<rparr>"
        and before: "\<forall>(m', offer') \<in> set pre. \<forall>v' px'.
                outcome self solve c m' offer' = Some (v', px') \<longrightarrow> \<not> fge v' v"
        and after: "\<forall>(m', offer') \<in> set post. \<forall>v' px'.
                outcome self solve c m' offer' = Some (v', px') \<longrightarrow> \<not> fgt v' v"
      from gt acc1 have gt': "fgt v v0" by simp
      have "fgt v (best_value acc)"
        using gt' gt0 by (rule fgt_trans)
      moreover have "\<forall>v' px'. outcome self solve c m0 o0 = Some (v', px') \<longrightarrow> \<not> fge v' v"
        using out0 gt' fgt_asym by auto
      then have "\<forall>(m', offer') \<in> set (q # pre). \<forall>v' px'.
                outcome self solve c m' offer' = Some (v', px') \<longrightarrow> \<not> fge v' v"
        using before q by simp
      moreover have "q # rest = (q # pre) @ (m, offer) # post"
        using split by simp
      ultimately show ?thesis
        using out acc' after by blast
    qed
  qed
qed

lemma pairs_iff:
  "(m, offer) \<in> set (pairs request) \<longleftrightarrow>
     m \<in> set (models request) \<and> offer \<in> set (available_offers m)"
  by (auto simp: pairs_def)

lemma optimize_offers_selected:
  assumes "optimize_offers self solve request = Inr r"
  shows "\<exists>pre m offer post v px.
           pairs request = pre @ (m, offer) # post \<and>
           outcome self solve (copcar request) m offer = Some (v, px) \<and>
           models_loop self solve (copcar request) initial_best (models request) =
             Inr \<lparr>best_value = v, best_model = Some m,
                  best_offer = Some offer, best_price = Some px\<rparr> \<and>
           r = \<lparr>resp_customer_id = customer_id request,
                resp_copcar = copcar request,
                opt_profit = v,
                expected_profit = copcar request - price offer,
                resp_model_name = model_name m,
                resp_offer_name = offer_name offer,
                offer_price = px,
                actual_offer_price = price offer,
                offer_volume = volume offer\<rparr> \<and>
           (\<forall>(m', offer') \<in> set pre. \<forall>v' px'.
              outcome self solve (copcar request) m' offer' = Some (v', px') \<longrightarrow>
              \<not> fge v' v) \<and>
           (\<forall>(m', offer') \<in> set post. \<forall>v' px'.
              outcome self solve (copcar request) m' offer' = Some (v', px') \<longrightarrow>
              \<not> fgt v' v)"
proof -
  from assms obtain acc where
    loop: "models_loop self solve (copcar request) initial_best (models request) = Inr acc"
    by (auto simp: optimize_offers_def split: sum.splits)
  then have ploop: "pairs_loop self solve (copcar request) initial_best (pairs request) = Inr acc"
    by (simp add: models_loop_pairs pairs_def)
  from assms loop have some: "best_offer acc \<noteq> None"
    by (auto simp: optimize_offers_def split: option.splits)
  from pairs_loop_first_best [OF ploop] some
  obtain pre m offer post v px where
    sel: "pairs request = pre @ (m, offer) # post"
      "outcome self solve (copcar request) m offer = Some (v, px)"
      "acc = \<lparr>best_value = v, best_model = Some m,
              best_offer = Some offer, best_price = Some px\<rparr>"
      "\<forall>(m', offer') \<in> set pre. \<forall>v' px'.
         outcome self solve (copcar request) m' offer' = Some (v', px') \<longrightarrow> \<not> fge v' v"
      "\<forall>(m', offer') \<in> set post. \<forall>v' px'.
         outcome self solve (copcar request) m' offer' = Some (v', px') \<longrightarrow> \<not> fgt v' v"
    by (auto simp: initial_best_def)
  from assms loop sel(3) have
    "r = \<lparr>resp_customer_id = customer_id request,
          resp_copcar = copcar request,
          opt_profit = v,
          expected_profit = copcar request - price offer,
          resp_model_name = model_name m,
          resp_offer_name = offer_name offer,
          offer_price = px,
          actual_offer_price = price offer,
          offer_volume = volume offer\<rparr>"
    by (simp add: optimize_offers_def)
  with sel loop show ?thesis by blast
qed

text \<open>
  The loops set \<^verbatim>\<open>best_model\<close>, \<^verbatim>\<open>best_offer\<close> and \<^verbatim>\<open>best_price\<close> together.
\<close>

lemma best_set_together:
  assumes "models_loop self solve c initial_best ms = Inr acc"
  shows "(best_offer acc = None \<and> best_model acc = None \<and> best_price acc = None) \<or>
         (\<exists>offer m px. best_offer acc = Some offer \<and> best_model acc = Some m \<and>
            best_price acc = Some px)"
proof -
  from assms have
    "pairs_loop self solve c initial_best
       (concat (map (\<lambda>model. map (Pair model) (available_offers model)) ms)) = Inr acc"
    by (simp add: models_loop_pairs)
  from pairs_loop_first_best [OF this] show ?thesis
    by (auto simp: initial_best_def)
qed

text \<open>
  An exception of the solver ends the call: the pairs before it were handled without one,
  and the call fails with the message of the exception.
\<close>

lemma solver_exception_propagates:
  assumes "pairs request = pre @ (m, offer) # post"
    and "pairs_loop self solve (copcar request) initial_best pre = Inr acc"
    and "\<not> skipped (copcar request) m offer"
    and "minimize_call self solve (copcar request) m offer = Inl e"
  shows "optimize_offers self solve request = Inl (HTTPException 500 (str e))"
proof -
  from assms(3,4) have "offer_step self solve (copcar request) m acc offer = Inl e"
    by (simp add: offer_step_def)
  with assms(1,2) have
    "pairs_loop self solve (copcar request) initial_best (pairs request) = Inl e"
    by (simp add: pairs_loop_append)
  then have "models_loop self solve (copcar request) initial_best (models request) = Inl e"
    by (simp add: models_loop_pairs pairs_def)
  then show ?thesis
    by (simp add: optimize_offers_def)
qed

lemma outcome_within_bounds:
  assumes "respects_bounds solve"
    and "outcome self solve c m offer = Some (v, px)"
  shows "fst (price_bounds c m offer) \<le> px \<and> px \<le> snd (price_bounds c m offer)"
proof -
  from assms(2) obtain result where
    call: "solve (objective self c m offer)
             ((fst (price_bounds c m offer) + snd (price_bounds c m offer)) / 2)
             (fst (price_bounds c m offer), snd (price_bounds c m offer)) = Inr result"
    and ok: "res_success result" and px: "px = res_x result"
    by (auto simp: outcome_def minimize_call_def Let_def split: if_splits sum.splits)
  from assms(1) call ok px show ?thesis
    unfolding respects_bounds_def by blast
qed

text \<open>
  For a positive \<open>copcar\<close> the upper bound of every offer is below \<open>copcar\<close>, so the
  objective is finite throughout the bounds: a solver that reports the objective at a point
  within them reports a score above negative infinity. With positive prices the bounds are
  never inverted.
\<close>

lemma price_bounds_below_copcar:
  assumes "c > 0"
  shows "snd (price_bounds c m offer) < c"
  using assms by (simp add: price_bounds_def min_def)

lemma price_bounds_ordered:
  assumes "c > 0" and "price offer > 0"
  shows "fst (price_bounds c m offer) < snd (price_bounds c m offer)"
  using assms by (simp add: price_bounds_def min_def)

lemma score_within_bounds_finite:
  assumes "c > 0"
    and "px \<le> snd (price_bounds c m offer)"
    and "objective self c m offer px = Inr fv"
  shows "fgt (fneg fv) NegInf"
proof -
  from assms(2) price_bounds_below_copcar [OF assms(1), of m offer] have "px < c"
    by simp
  with assms(1,3) show ?thesis
    by (auto simp: objective_def evaluate_offer_def calculate_retention_score_def Let_def
        split: if_splits)
qed

lemma pairs_loop_returns:
  assumes "\<forall>(m, offer) \<in> set ps. \<not> skipped c m offer \<longrightarrow>
             (\<exists>result. minimize_call self solve c m offer = Inr result)"
  shows "\<exists>acc'. pairs_loop self solve c acc ps = Inr acc'"
  using assms
proof (induction ps arbitrary: acc)
  case Nil
  then show ?case by simp
next
  case (Cons q rest)
  obtain m offer where q: "q = (m, offer)" by (cases q)
  from Cons.prems q have "\<exists>acc1. offer_step self solve c m acc offer = Inr acc1"
    by (auto simp: offer_step_def Let_def)
  then obtain acc1 where "offer_step self solve c m acc offer = Inr acc1" ..
  moreover from Cons.prems have "\<exists>acc'. pairs_loop self solve c acc1 rest = Inr acc'"
    by (intro Cons.IH) simp
  ultimately show ?case using q by simp
qed

lemma optimize_offers_returns:
  assumes "\<forall>(m, offer) \<in> set (pairs request).
             \<not> skipped (copcar request) m offer \<longrightarrow>
             (\<exists>result. minimize_call self solve (copcar request) m offer = Inr result)"
    and "\<exists>(m, offer) \<in> set (pairs request). \<exists>v px.
           outcome self solve (copcar request) m offer = Some (v, px) \<and> fgt v NegInf"
  shows "\<exists>r. optimize_offers self solve request = Inr r"
proof -
  let ?c = "copcar request"
  from assms(1) have "\<exists>acc. pairs_loop self solve ?c initial_best (pairs request) = Inr acc"
    by (rule pairs_loop_returns)
  then obtain acc where
    ploop: "pairs_loop self solve ?c initial_best (pairs request) = Inr acc" ..
  then have loop: "models_loop self solve ?c initial_best (models request) = Inr acc"
    by (simp add: models_loop_pairs pairs_def)
  from pairs_loop_first_best [OF ploop] assms(2)
  obtain m offer v px where
    "acc = \<lparr>best_value = v, best_model = Some m,
            best_offer = Some offer, best_price = Some px\<rparr>"
    by (fastforce simp: initial_best_def)
  with loop show ?thesis
    by (simp add: optimize_offers_def)
qed

subsection \<open>A bounded solver on a valid request\<close>

lemma objective_finite_within_bounds:
  assumes "c > 0" and "p \<le> snd (price_bounds c m offer)"
  shows "\<exists>a. objective self c m offer p = Inr (Fin a)"
proof -
  from assms(2) price_bounds_below_copcar [OF assms(1), of m offer] have "p < c"
    by simp
  with assms(1) show ?thesis
    by (simp add: objective_def evaluate_offer_def calculate_retention_score_def Let_def)
qed

lemma bounded_solver_call:
  assumes "bounded_solver solve" and "c > 0" and "price offer > 0"
  shows "\<exists>result. minimize_call self solve c m offer = Inr result \<and>
           (res_success result \<longrightarrow> fgt (fneg (res_fun result)) NegInf)"
proof -
  let ?lo = "fst (price_bounds c m offer)" and ?hi = "snd (price_bounds c m offer)"
  let ?x0 = "(?lo + ?hi) / 2"
  from price_bounds_ordered [OF assms(2,3), of m] have "?lo \<le> ?x0" and "?x0 \<le> ?hi"
    by simp_all
  moreover have "\<forall>p. ?lo \<le> p \<and> p \<le> ?hi \<longrightarrow> (\<exists>a. objective self c m offer p = Inr (Fin a))"
    using objective_finite_within_bounds [OF assms(2)] by blast
  ultimately obtain result where
    call: "solve (objective self c m offer) ?x0 (?lo, ?hi) = Inr result"
    and ok: "res_success result \<longrightarrow>
               ?lo \<le> res_x result \<and> res_x result \<le> ?hi \<and>
               objective self c m offer (res_x result) = Inr (res_fun result)"
    using assms(1) unfolding bounded_solver_def by meson
  from call have "minimize_call self solve c m offer = Inr result"
    by (simp add: minimize_call_def Let_def)
  moreover have "fgt (fneg (res_fun result)) NegInf" if "res_success result"
    using ok that score_within_bounds_finite [OF assms(2)] by blast
  ultimately show ?thesis by blast
qed

lemma optimize_offers_outcomes:
  assumes "\<forall>(m, offer) \<in> set (pairs request).
             \<not> skipped (copcar request) m offer \<longrightarrow>
             (\<exists>result. minimize_call self solve (copcar request) m offer = Inr result \<and>
                (res_success result \<longrightarrow> fgt (fneg (res_fun result)) NegInf))"
  shows "((\<forall>(m, offer) \<in> set (pairs request).
             outcome self solve (copcar request) m offer = None) \<and>
          optimize_offers self solve request =
            Inl (HTTPException 500 ''No suitable offer found'')) \<or>
         (\<exists>pre m offer post v px.
            pairs request = pre @ (m, offer) # post \<and>
            outcome self solve (copcar request) m offer = Some (v, px) \<and>
            optimize_offers self solve request =
              Inr \<lparr>resp_customer_id = customer_id request,
                   resp_copcar = copcar request,
                   opt_profit = v,
                   expected_profit = copcar request - price offer,
                   resp_model_name = model_name m,
                   resp_offer_name = offer_name offer,
                   offer_price = px,
                   actual_offer_price = price offer,
                   offer_volume = volume offer\<rparr> \<and>
            (\<forall>(m', offer') \<in> set pre. \<forall>v' px'.
               outcome self solve (copcar request) m' offer' = Some (v', px') \<longrightarrow>
               \<not> fge v' v) \<and>
            (\<forall>(m', offer') \<in> set post. \<forall>v' px'.
               outcome self solve (copcar request) m' offer' = Some (v', px') \<longrightarrow>
               \<not> fgt v' v))"
proof -
  let ?c = "copcar request"
  have above: "fgt v NegInf"
    if "(m, offer) \<in> set (pairs request)" and "outcome self solve ?c m offer = Some (v, px)"
    for m offer v px
    using assms that
    by (fastforce simp: outcome_def split: if_splits sum.splits)
  from assms have "\<exists>acc. pairs_loop self solve ?c initial_best (pairs request) = Inr acc"
    by (intro pairs_loop_returns) blast
  then obtain acc where
    ploop: "pairs_loop self solve ?c initial_best (pairs request) = Inr acc" ..
  then have loop: "models_loop self solve ?c initial_best (models request) = Inr acc"
    by (simp add: models_loop_pairs pairs_def)
  from pairs_loop_first_best [OF ploop] show ?thesis
  proof (elim disjE conjE exE)
    assume same: "acc = initial_best"
      and low: "\<forall>(m, offer) \<in> set (pairs request). \<forall>v px.
             outcome self solve ?c m offer = Some (v, px) \<longrightarrow>
             \<not> fgt v (best_value initial_best)"
    have none: "\<forall>(m, offer) \<in> set (pairs request). outcome self solve ?c m offer = None"
    proof (intro ballI, clarify)
      fix m offer
      assume mem: "(m, offer) \<in> set (pairs request)"
      show "outcome self solve ?c m offer = None"
      proof (cases "outcome self solve ?c m offer")
        case None
        then show ?thesis .
      next
        case (Some a)
        obtain v px where "a = (v, px)" by (cases a)
        with Some above [OF mem] low mem show ?thesis
          by (auto simp: initial_best_def)
      qed
    qed
    moreover from loop same have
      "optimize_offers self solve request = Inl (HTTPException 500 ''No suitable offer found'')"
      by (simp add: optimize_offers_def initial_best_def)
    ultimately show ?thesis by blast
  next
    fix pre m offer post v px
    assume split: "pairs request = pre @ (m, offer) # post"
      and out: "outcome self solve ?c m offer = Some (v, px)"
      and acc: "acc = \<lparr>best_value = v, best_model = Some m,
                         best_offer = Some offer, best_price = Some px\<rparr>"
      and before: "\<forall>(m', offer') \<in> set pre. \<forall>v' px'.
               outcome self solve ?c m' offer' = Some (v', px') \<longrightarrow> \<not> fge v' v"
      and after: "\<forall>(m', offer') \<in> set post. \<forall>v' px'.
               outcome self solve ?c m' offer' = Some (v', px') \<longrightarrow> \<not> fgt v' v"
    from loop acc have
      "optimize_offers self solve request =
              Inr \<lparr>resp_customer_id = customer_id request,
                   resp_copcar = copcar request,
                   opt_profit = v,
                   expected_profit = copcar request - price offer,
                   resp_model_name = model_name m,
                   resp_offer_name = offer_name offer,
                   offer_price = px,
                   actual_offer_price = price offer,
                   offer_volume = volume offer\<rparr>"
      by (simp add: optimize_offers_def)
    with split out before after show ?thesis by blast
  qed
qed

subsection \<open>The call with state against the call without\<close>

text \<open>
  For a deterministic solver the result of the call with state is the result of
  \<open>optimize_offers\<close> on the answers of the solver, read at any state.
\<close>

lemma optimize_offers_finish:
  "optimize_offers self solve request =
     finish request (models_loop self solve (copcar request) initial_best (models request))"
  by (simp add: optimize_offers_def finish_def)

lemma offer_step_st_fst:
  assumes "deterministic_solver solve"
  shows "fst (offer_step_st self solve c m acc offer s) =
           offer_step self (\<lambda>f x0 bounds. fst (solve f x0 bounds s0)) c m acc offer"
proof -
  let ?b = "price_bounds c m offer"
  let ?x0 = "(fst ?b + snd ?b) / 2"
  obtain res s' where run: "solve (objective self c m offer) ?x0 ?b s = (res, s')"
    by (cases "solve (objective self c m offer) ?x0 ?b s")
  from assms have "fst (solve (objective self c m offer) ?x0 ?b s0) =
                   fst (solve (objective self c m offer) ?x0 ?b s)"
    unfolding deterministic_solver_def by blast
  with run have "fst (solve (objective self c m offer) ?x0 ?b s0) = res"
    by simp
  with run show ?thesis
    by (simp add: offer_step_st_def offer_step_def minimize_call_st_def minimize_call_def
        Let_def split: sum.splits)
qed

lemma offers_loop_st_fst:
  assumes "deterministic_solver solve"
  shows "fst (offers_loop_st self solve c m acc offers s) =
           offers_loop self (\<lambda>f x0 bounds. fst (solve f x0 bounds s0)) c m acc offers"
proof (induction offers arbitrary: acc s)
  case Nil
  then show ?case by simp
next
  case (Cons offer rest)
  obtain r s' where step: "offer_step_st self solve c m acc offer s = (r, s')"
    by (cases "offer_step_st self solve c m acc offer s")
  with offer_step_st_fst [OF assms, of self c m acc offer s s0]
  have "offer_step self (\<lambda>f x0 bounds. fst (solve f x0 bounds s0)) c m acc offer = r"
    by simp
  with step Cons.IH show ?case
    by (simp split: sum.splits)
qed

lemma models_loop_st_fst:
  assumes "deterministic_solver solve"
  shows "fst (models_loop_st self solve c acc ms s) =
           models_loop self (\<lambda>f x0 bounds. fst (solve f x0 bounds s0)) c acc ms"
proof (induction ms arbitrary: acc s)
  case Nil
  then show ?case by simp
next
  case (Cons m rest)
  obtain r s' where
    inner: "offers_loop_st self solve c m acc (available_offers m) s = (r, s')"
    by (cases "offers_loop_st self solve c m acc (available_offers m) s")
  with offers_loop_st_fst [OF assms, of self c m acc "available_offers m" s s0]
  have "offers_loop self (\<lambda>f x0 bounds. fst (solve f x0 bounds s0)) c m acc
          (available_offers m) = r"
    by simp
  with inner Cons.IH show ?case
    by (simp split: sum.splits)
qed

lemma optimize_offers_st_fst:
  assumes "deterministic_solver solve"
  shows "fst (optimize_offers_st self solve request s) =
           optimize_offers self (\<lambda>f x0 bounds. fst (solve f x0 bounds s0)) request"
proof -
  obtain looped s' where
    run: "models_loop_st self solve (copcar request) initial_best (models request) s =
            (looped, s')"
    by (cases "models_loop_st self solve (copcar request) initial_best (models request) s")
  with models_loop_st_fst [OF assms, of self "copcar request" initial_best "models request" s s0]
  have "models_loop self (\<lambda>f x0 bounds. fst (solve f x0 bounds s0)) (copcar request)
          initial_best (models request) = looped"
    by simp
  with run show ?thesis
    by (simp add: optimize_offers_st_def optimize_offers_finish)
qed

lemma optimize_offer_fst:
  "fst (optimize_offer solve request w) =
     fst (optimize_offers_st (the_optimizer w) solve request (solver_state w))"
  by (simp add: optimize_offer_def split: prod.splits)

lemma optimize_offer_keeps_optimizer:
  "the_optimizer (snd (optimize_offer solve request w)) = the_optimizer w"
  by (simp add: optimize_offer_def split: prod.splits)

subsection \<open>Concrete runs\<close>

lemma guess_solver_respects_bounds: "respects_bounds guess_solver"
  by (auto simp: respects_bounds_def guess_solver_def split: sum.splits)

lemma tie_request_valid: "valid_OptimizationRequest tie_request"
  by (simp add: valid_OptimizationRequest_def valid_ModelInput_def valid_Offer_def
      tie_request_def)

lemma tie_request_result:
  "optimize_offers optimizer guess_solver tie_request = Inr tie_response"
  by (simp add: optimize_offers_def tie_request_def tie_response_def offer_step_def
      minimize_call_def price_bounds_def objective_def evaluate_offer_def guess_solver_def
      optimizer_def skipped_def initial_best_def Let_def)

lemma tie_request_no_exception:
  "\<forall>(m, offer) \<in> set (pairs tie_request).
     \<not> skipped (copcar tie_request) m offer \<longrightarrow>
     (\<exists>result. minimize_call optimizer guess_solver (copcar tie_request) m offer =
        Inr result)"
  by (simp add: pairs_def tie_request_def run_defs)

lemma tie_request_success:
  "\<exists>(m, offer) \<in> set (pairs tie_request). \<exists>v px.
     outcome optimizer guess_solver (copcar tie_request) m offer = Some (v, px) \<and>
     fgt v NegInf"
  by (simp add: pairs_def tie_request_def outcome_def run_defs)

lemma retention_request_loop:
  "models_loop optimizer guess_solver (copcar retention_request) initial_best
     (models retention_request) =
   Inr \<lparr>best_value = Fin (19.4285 + 240 / (1 + exp (- (19 / 8)))),
        best_model = Some (hd (models retention_request)),
        best_offer = Some (available_offers (hd (models retention_request)) ! 1),
        best_price = Some 105\<rparr>"
proof -
  have "5 + 5 * exp (- (19 / 8)) = 5 * (1 + exp (- (19 / 8 :: real)))"
    by (simp add: algebra_simps)
  moreover have "1200 / (5 * y) = 240 / y" for y :: real
    by simp
  ultimately have "1200 / (5 + 5 * exp (- (19 / 8))) = 240 / (1 + exp (- (19 / 8 :: real)))"
    by (simp only:)
  then show ?thesis
    by (simp add: retention_request_def run_defs)
qed

lemma retention_request_outcome:
  "\<exists>(m, offer) \<in> set (pairs retention_request).
     outcome optimizer guess_solver (copcar retention_request) m offer \<noteq> None"
  by (simp add: pairs_def retention_request_def outcome_def run_defs)

lemma infeasible_request_outcome:
  "\<forall>(m, offer) \<in> set (pairs infeasible_request).
     outcome optimizer guess_solver (copcar infeasible_request) m offer = None"
  by (simp add: pairs_def infeasible_request_def outcome_def skipped_def)

lemma guess_solver_bounded: "bounded_solver guess_solver"
  unfolding bounded_solver_def guess_solver_def
  by (auto split: sum.splits)

lemma infeasible_request_valid: "valid_OptimizationRequest infeasible_request"
  by (simp add: valid_OptimizationRequest_def valid_ModelInput_def valid_Offer_def
      infeasible_request_def)

lemma retention_request_valid: "valid_OptimizationRequest retention_request"
  by (simp add: valid_OptimizationRequest_def valid_ModelInput_def valid_Offer_def
      retention_request_def)

lemma retention_request_result:
  "optimize_offers optimizer guess_solver retention_request =
     Inr \<lparr>resp_customer_id = ''CUST002'', resp_copcar = 200,
          opt_profit = Fin (19.4285 + 240 / (1 + exp (- (19 / 8)))),
          expected_profit = 50, resp_model_name = ''churn_predictor'',
          resp_offer_name = ''Retention Offer 2'', offer_price = 105,
          actual_offer_price = 150, offer_volume = 200\<rparr>"
  using retention_request_loop
  by (simp add: optimize_offers_def retention_request_def)

lemma counting_solver_deterministic: "deterministic_solver counting_solver"
  by (simp add: deterministic_solver_def counting_solver_def)

lemma counting_solver_tie_request:
  "fst (optimize_offer counting_solver tie_request
          \<lparr>the_optimizer = optimizer, solver_state = n\<rparr>) = Inr tie_response"
proof -
  have "(\<lambda>f x0 bounds. fst (counting_solver f x0 bounds n)) = guess_solver"
    by (simp add: counting_solver_def)
  with optimize_offers_st_fst [OF counting_solver_deterministic, of optimizer tie_request n n]
    tie_request_result
  show ?thesis
    by (simp add: optimize_offer_fst)
qed

lemma costly_growth_call:
  "minimize_call optimizer guess_solver 200
     \<lparr>model_name = ''upsell_predictor'', model_probability = 0.4,
      model_category = GROWTH,
      available_offers =
        [\<lparr>offer_name = ''Growth Offer 1'', price = 250, volume = 200,
          conversion_rate = 0.2\<rparr>]\<rparr>
     \<lparr>offer_name = ''Growth Offer 1'', price = 250, volume = 200, conversion_rate = 0.2\<rparr> =
   Inr \<lparr>res_success = True, res_x = 145, res_fun = Fin (- (1636 / 145))\<rparr>"
  by (simp add: run_defs)

text \<open>
  With a solver whose answers depend on the state, two calls in a row on the same request
  differ: the first returns a response, the second fails.
\<close>

lemma alternating_solver_first_call:
  "optimize_offer alternating_solver costly_growth_request
     \<lparr>the_optimizer = optimizer, solver_state = 0\<rparr> =
   (Inr \<lparr>resp_customer_id = ''CUST003'', resp_copcar = 200,
         opt_profit = Fin (1636 / 145), expected_profit = - 50,
         resp_model_name = ''upsell_predictor'', resp_offer_name = ''Growth Offer 1'',
         offer_price = 145, actual_offer_price = 250, offer_volume = 200\<rparr>,
    \<lparr>the_optimizer = optimizer, solver_state = 1\<rparr>)"
  by (simp add: optimize_offer_def optimize_offers_st_def finish_def offer_step_st_def
      minimize_call_st_def alternating_solver_def costly_growth_request_def price_bounds_def
      objective_def evaluate_offer_def optimizer_def skipped_def initial_best_def Let_def)

lemma alternating_solver_second_call:
  "optimize_offer alternating_solver costly_growth_request
     \<lparr>the_optimizer = optimizer, solver_state = 1\<rparr> =
   (Inl (HTTPException 500 ''No suitable offer found''),
    \<lparr>the_optimizer = optimizer, solver_state = 2\<rparr>)"
  by (simp add: optimize_offer_def optimize_offers_st_def finish_def offer_step_st_def
      minimize_call_st_def alternating_solver_def costly_growth_request_def price_bounds_def
      objective_def evaluate_offer_def optimizer_def skipped_def initial_best_def Let_def)

lemma alternating_solver_not_deterministic: "\<not> deterministic_solver alternating_solver"
proof
  assume "deterministic_solver alternating_solver"
  then have "fst (alternating_solver (\<lambda>p. Inr (Fin 0)) 0 (0, 0) 0) =
             fst (alternating_solver (\<lambda>p. Inr (Fin 0)) 0 (0, 0) 1)"
    unfolding deterministic_solver_def by blast
  then show False
    by (simp add: alternating_solver_def)
qed

lemma alternating_solver_calls_differ:
  "fst (optimize_offer alternating_solver costly_growth_request
          (snd (optimize_offer alternating_solver costly_growth_request
             \<lparr>the_optimizer = optimizer, solver_state = 0\<rparr>))) \<noteq>
   fst (optimize_offer alternating_solver costly_growth_request
          \<lparr>the_optimizer = optimizer, solver_state = 0\<rparr>)"
proof -
  have "fst (optimize_offer alternating_solver costly_growth_request
          (snd (optimize_offer alternating_solver costly_growth_request
             \<lparr>the_optimizer = optimizer, solver_state = 0\<rparr>))) =
        Inl (HTTPException 500 ''No suitable offer found'')"
    by (simp only: alternating_solver_first_call alternating_solver_second_call
        fst_conv snd_conv)
  then show ?thesis
    by (simp add: alternating_solver_first_call)
qed

section \<open>The offer selection optimizer: properties\<close>

text \<open>
  C1. When \<open>optimize_offers\<close> returns a response, the response is built from exactly one
  pair of the request, met at some position of the iteration order (models in request
  order, the offers of each model in the model's order). The solver succeeded on that
  pair, and the response carries its score and its optimized price. No pair on which the
  solver succeeded has a strictly greater score, and no earlier one has a score greater
  than or equal to it: a later pair replaces the best one only with a strictly greater
  score, and among equal scores the first one met wins. And a response is returned
  whenever the solver raises on no pair that is tried and succeeds on some pair with a
  score above negative infinity.
\<close>

theorem optimize_offers_first_best:
  "(\<forall>r. optimize_offers self solve request = Inr r \<longrightarrow>
      (\<exists>pre m offer post v px.
           pairs request = pre @ (m, offer) # post \<and>
           outcome self solve (copcar request) m offer = Some (v, px) \<and>
           r = \<lparr>resp_customer_id = customer_id request,
                resp_copcar = copcar request,
                opt_profit = v,
                expected_profit = copcar request - price offer,
                resp_model_name = model_name m,
                resp_offer_name = offer_name offer,
                offer_price = px,
                actual_offer_price = price offer,
                offer_volume = volume offer\<rparr> \<and>
           (\<forall>(m', offer') \<in> set pre. \<forall>v' px'.
              outcome self solve (copcar request) m' offer' = Some (v', px') \<longrightarrow>
              \<not> fge v' v) \<and>
           (\<forall>(m', offer') \<in> set post. \<forall>v' px'.
              outcome self solve (copcar request) m' offer' = Some (v', px') \<longrightarrow>
              \<not> fgt v' v))) \<and>
   ((\<forall>(m, offer) \<in> set (pairs request).
        \<not> skipped (copcar request) m offer \<longrightarrow>
        (\<exists>result. minimize_call self solve (copcar request) m offer = Inr result)) \<and>
    (\<exists>(m, offer) \<in> set (pairs request). \<exists>v px.
        outcome self solve (copcar request) m offer = Some (v, px) \<and> fgt v NegInf) \<longrightarrow>
    (\<exists>r. optimize_offers self solve request = Inr r))"
proof (intro conjI allI impI)
  fix r
  assume "optimize_offers self solve request = Inr r"
  from optimize_offers_selected [OF this]
  show "\<exists>pre m offer post v px.
           pairs request = pre @ (m, offer) # post \<and>
           outcome self solve (copcar request) m offer = Some (v, px) \<and>
           r = \<lparr>resp_customer_id = customer_id request,
                resp_copcar = copcar request,
                opt_profit = v,
                expected_profit = copcar request - price offer,
                resp_model_name = model_name m,
                resp_offer_name = offer_name offer,
                offer_price = px,
                actual_offer_price = price offer,
                offer_volume = volume offer\<rparr> \<and>
           (\<forall>(m', offer') \<in> set pre. \<forall>v' px'.
              outcome self solve (copcar request) m' offer' = Some (v', px') \<longrightarrow>
              \<not> fge v' v) \<and>
           (\<forall>(m', offer') \<in> set post. \<forall>v' px'.
              outcome self solve (copcar request) m' offer' = Some (v', px') \<longrightarrow>
              \<not> fgt v' v)"
    by blast
next
  assume "(\<forall>(m, offer) \<in> set (pairs request).
        \<not> skipped (copcar request) m offer \<longrightarrow>
        (\<exists>result. minimize_call self solve (copcar request) m offer = Inr result)) \<and>
    (\<exists>(m, offer) \<in> set (pairs request). \<exists>v px.
        outcome self solve (copcar request) m offer = Some (v, px) \<and> fgt v NegInf)"
  then show "\<exists>r. optimize_offers self solve request = Inr r"
    using optimize_offers_returns by blast
qed

theorem optimize_offers_first_best_witness:
  "optimize_offers optimizer guess_solver tie_request = Inr tie_response \<and>
   (\<exists>pre m offer post v px.
      pairs tie_request = pre @ (m, offer) # post \<and>
      outcome optimizer guess_solver (copcar tie_request) m offer = Some (v, px) \<and>
      tie_response =
        \<lparr>resp_customer_id = customer_id tie_request,
         resp_copcar = copcar tie_request,
         opt_profit = v,
         expected_profit = copcar tie_request - price offer,
         resp_model_name = model_name m,
         resp_offer_name = offer_name offer,
         offer_price = px,
         actual_offer_price = price offer,
         offer_volume = volume offer\<rparr>) \<and>
   (\<exists>r. optimize_offers optimizer guess_solver tie_request = Inr r)"
  using tie_request_result tie_request_no_exception tie_request_success
    optimize_offers_first_best [of optimizer guess_solver tie_request]
  by blast

text \<open>
  C5. A retention offer whose catalog price is at least \<open>copcar\<close> is passed over before
  the solver is called: the loop body returns the accumulator unchanged whatever the
  solver would do, even raise. Such a pair is never the best pair that the loops end
  with, and every response is built from a pair of the request that was not passed over.
\<close>

theorem retention_offer_skipped:
  assumes "model_category model = RETENTION" and "price offer \<ge> copcar request"
  shows "offer_step self solve (copcar request) model acc offer = Inr acc \<and>
         (\<forall>best. models_loop self solve (copcar request) initial_best (models request) =
                    Inr best \<longrightarrow>
                  \<not> (best_model best = Some model \<and> best_offer best = Some offer)) \<and>
         (\<forall>r. optimize_offers self solve request = Inr r \<longrightarrow>
              (\<exists>(m, offer') \<in> set (pairs request).
                 \<not> (model_category m = RETENTION \<and> price offer' \<ge> copcar request) \<and>
                 resp_model_name r = model_name m \<and>
                 resp_offer_name r = offer_name offer' \<and>
                 actual_offer_price r = price offer' \<and>
                 offer_volume r = volume offer'))"
proof (intro conjI allI impI)
  show "offer_step self solve (copcar request) model acc offer = Inr acc"
    using assms by (simp add: offer_step_def skipped_def)
next
  fix best
  assume loop: "models_loop self solve (copcar request) initial_best (models request) = Inr best"
  then have ploop: "pairs_loop self solve (copcar request) initial_best (pairs request) = Inr best"
    by (simp add: models_loop_pairs pairs_def)
  show "\<not> (best_model best = Some model \<and> best_offer best = Some offer)"
  proof
    assume sel: "best_model best = Some model \<and> best_offer best = Some offer"
    with pairs_loop_first_best [OF ploop]
    obtain v px where "outcome self solve (copcar request) model offer = Some (v, px)"
      by (auto simp: initial_best_def)
    with assms show False
      by (simp add: outcome_def skipped_def)
  qed
next
  fix r
  assume "optimize_offers self solve request = Inr r"
  from optimize_offers_selected [OF this]
  obtain pre m offer' post v px where
    sel: "pairs request = pre @ (m, offer') # post"
      "outcome self solve (copcar request) m offer' = Some (v, px)"
      "r = \<lparr>resp_customer_id = customer_id request,
         resp_copcar = copcar request, opt_profit = v,
         expected_profit = copcar request - price offer',
         resp_model_name = model_name m, resp_offer_name = offer_name offer',
         offer_price = px, actual_offer_price = price offer',
         offer_volume = volume offer'\<rparr>"
    by blast
  from sel(2) have "\<not> skipped (copcar request) m offer'"
    by (auto simp: outcome_def split: if_splits)
  moreover from sel(1) have "(m, offer') \<in> set (pairs request)" by simp
  ultimately show "\<exists>(m, offer') \<in> set (pairs request).
                 \<not> (model_category m = RETENTION \<and> price offer' \<ge> copcar request) \<and>
                 resp_model_name r = model_name m \<and>
                 resp_offer_name r = offer_name offer' \<and>
                 actual_offer_price r = price offer' \<and>
                 offer_volume r = volume offer'"
    using sel(3) by (auto simp: skipped_def)
qed

theorem retention_offer_skipped_witness:
  "model_category (hd (models retention_request)) = RETENTION \<and>
   price (hd (available_offers (hd (models retention_request)))) \<ge> copcar retention_request \<and>
   offer_step optimizer guess_solver (copcar retention_request)
     (hd (models retention_request)) initial_best
     (hd (available_offers (hd (models retention_request)))) = Inr initial_best \<and>
   models_loop optimizer guess_solver (copcar retention_request) initial_best
     (models retention_request) =
     Inr \<lparr>best_value = Fin (19.4285 + 240 / (1 + exp (- (19 / 8)))),
          best_model = Some (hd (models retention_request)),
          best_offer = Some (available_offers (hd (models retention_request)) ! 1),
          best_price = Some 105\<rparr> \<and>
   best_offer \<lparr>best_value = Fin (19.4285 + 240 / (1 + exp (- (19 / 8)))),
          best_model = Some (hd (models retention_request)),
          best_offer = Some (available_offers (hd (models retention_request)) ! 1),
          best_price = Some 105\<rparr> \<noteq>
     Some (hd (available_offers (hd (models retention_request))))"
proof -
  have cat: "model_category (hd (models retention_request)) = RETENTION"
    by (simp add: retention_request_def)
  have high: "price (hd (available_offers (hd (models retention_request)))) \<ge>
      copcar retention_request"
    by (simp add: retention_request_def)
  note skip = retention_offer_skipped [OF cat high, of optimizer guess_solver initial_best]
  from skip retention_request_loop cat high show ?thesis
    by simp
qed

text \<open>
  C6. For a request that meets the field constraints and a solver that keeps within its
  bounds, the optimized price of every response is positive and at most \<open>copcar\<close>, and
  it lies within the bounds of the selected pair: from \<open>min (0.3 * copcar) (0.8 * price)\<close>
  to \<open>min (0.9 * copcar) price\<close> for retention, from \<open>min (0.5 * copcar) (0.8 * price)\<close>
  to \<open>min (0.95 * copcar) price\<close> otherwise.
\<close>

theorem offer_price_within_bounds:
  assumes "optimize_offers self solve request = Inr r"
    and "valid_OptimizationRequest request"
    and "respects_bounds solve"
  shows "0 < offer_price r \<and> offer_price r \<le> copcar request \<and>
         (\<exists>(m, offer) \<in> set (pairs request).
            resp_model_name r = model_name m \<and>
            resp_offer_name r = offer_name offer \<and>
            actual_offer_price r = price offer \<and>
            offer_volume r = volume offer \<and>
            (if model_category m = RETENTION then
               min (0.3 * copcar request) (0.8 * price offer) \<le> offer_price r \<and>
               offer_price r \<le> min (0.9 * copcar request) (price offer)
             else
               min (0.5 * copcar request) (0.8 * price offer) \<le> offer_price r \<and>
               offer_price r \<le> min (0.95 * copcar request) (price offer)))"
proof -
  from optimize_offers_selected [OF assms(1)]
  obtain pre m offer post v px where
    sel: "pairs request = pre @ (m, offer) # post"
      "outcome self solve (copcar request) m offer = Some (v, px)"
      "r = \<lparr>resp_customer_id = customer_id request,
         resp_copcar = copcar request, opt_profit = v,
         expected_profit = copcar request - price offer,
         resp_model_name = model_name m, resp_offer_name = offer_name offer,
         offer_price = px, actual_offer_price = price offer,
         offer_volume = volume offer\<rparr>"
    by blast
  from sel(1) have mem: "(m, offer) \<in> set (pairs request)" by simp
  then have "m \<in> set (models request)" and "offer \<in> set (available_offers m)"
    by (simp_all add: pairs_iff)
  with assms(2) have pos: "copcar request > 0" "price offer > 0"
    by (auto simp: valid_OptimizationRequest_def valid_ModelInput_def valid_Offer_def
        list_all_iff)
  from outcome_within_bounds [OF assms(3) sel(2)]
  have box: "fst (price_bounds (copcar request) m offer) \<le> px"
    "px \<le> snd (price_bounds (copcar request) m offer)"
    by simp_all
  have fields: "offer_price r = px" "resp_model_name r = model_name m"
    "resp_offer_name r = offer_name offer" "actual_offer_price r = price offer"
    "offer_volume r = volume offer"
    using sel(3) by simp_all
  have formula: "if model_category m = RETENTION then
               min (0.3 * copcar request) (0.8 * price offer) \<le> px \<and>
               px \<le> min (0.9 * copcar request) (price offer)
             else
               min (0.5 * copcar request) (0.8 * price offer) \<le> px \<and>
               px \<le> min (0.95 * copcar request) (price offer)"
    using box by (simp add: price_bounds_def mult.commute split: if_splits)
  from formula pos have "0 < px" and "px \<le> copcar request"
    by (auto split: if_splits)
  with formula fields mem show ?thesis
    by auto
qed

theorem offer_price_within_bounds_witness:
  "optimize_offers optimizer guess_solver tie_request = Inr tie_response \<and>
   valid_OptimizationRequest tie_request \<and>
   respects_bounds guess_solver \<and>
   0 < offer_price tie_response \<and> offer_price tie_response \<le> copcar tie_request \<and>
   min (0.5 * copcar tie_request) (0.8 * 150) \<le> offer_price tie_response \<and>
   offer_price tie_response \<le> min (0.95 * copcar tie_request) 150"
  using offer_price_within_bounds
    [OF tie_request_result tie_request_valid guess_solver_respects_bounds]
    tie_request_result tie_request_valid guess_solver_respects_bounds
  by (simp add: tie_response_def tie_request_def)

text \<open>
  C7. In every response, \<open>expected_profit\<close> is \<open>copcar\<close> minus \<open>actual_offer_price\<close>, the
  catalog price of the selected offer; the optimized price plays no part in it.
\<close>

theorem expected_profit_identity:
  assumes "optimize_offers self solve request = Inr r"
  shows "expected_profit r = resp_copcar r - actual_offer_price r \<and>
         resp_copcar r = copcar request \<and>
         (\<exists>(m, offer) \<in> set (pairs request).
            resp_model_name r = model_name m \<and>
            resp_offer_name r = offer_name offer \<and>
            offer_volume r = volume offer \<and>
            actual_offer_price r = price offer \<and>
            expected_profit r = copcar request - price offer)"
proof -
  from optimize_offers_selected [OF assms]
  obtain pre m offer post v px where
    sel: "pairs request = pre @ (m, offer) # post"
      "r = \<lparr>resp_customer_id = customer_id request,
         resp_copcar = copcar request, opt_profit = v,
         expected_profit = copcar request - price offer,
         resp_model_name = model_name m, resp_offer_name = offer_name offer,
         offer_price = px, actual_offer_price = price offer,
         offer_volume = volume offer\<rparr>"
    by blast
  from sel(1) have "(m, offer) \<in> set (pairs request)" by simp
  with sel(2) show ?thesis by auto
qed

theorem expected_profit_identity_witness:
  "optimize_offers optimizer guess_solver tie_request = Inr tie_response \<and>
   expected_profit tie_response = 200 - 150 \<and>
   actual_offer_price tie_response = 150 \<and>
   offer_price tie_response = 125"
  using expected_profit_identity [OF tie_request_result] tie_request_result
  by (simp add: tie_response_def tie_request_def)

text \<open>
  C8. For a request that meets the field constraints and a bounded solver,
  \<open>optimize_offers\<close> fails with the detail \<^verbatim>\<open>No suitable offer found\<close> exactly when no
  pair has a successful optimization, each being passed over or not converged. Otherwise
  it returns one response, with every field taken from one pair on which the solver
  succeeded: its score, its optimized price, the names, the catalog price, the volume and
  \<open>copcar\<close> minus the catalog price; no successful pair scores strictly more and no earlier
  one scores as much. There is no third result.
\<close>

theorem no_suitable_offer_iff:
  assumes "valid_OptimizationRequest request" and "bounded_solver solve"
  shows "(optimize_offers self solve request =
            Inl (HTTPException 500 ''No suitable offer found'') \<longleftrightarrow>
          (\<forall>(m, offer) \<in> set (pairs request).
             outcome self solve (copcar request) m offer = None)) \<and>
         ((\<exists>(m, offer) \<in> set (pairs request).
             outcome self solve (copcar request) m offer \<noteq> None) \<longrightarrow>
          (\<exists>pre m offer post v px.
             pairs request = pre @ (m, offer) # post \<and>
             outcome self solve (copcar request) m offer = Some (v, px) \<and>
             optimize_offers self solve request =
               Inr \<lparr>resp_customer_id = customer_id request,
                    resp_copcar = copcar request,
                    opt_profit = v,
                    expected_profit = copcar request - price offer,
                    resp_model_name = model_name m,
                    resp_offer_name = offer_name offer,
                    offer_price = px,
                    actual_offer_price = price offer,
                    offer_volume = volume offer\<rparr> \<and>
             (\<forall>(m', offer') \<in> set pre. \<forall>v' px'.
                outcome self solve (copcar request) m' offer' = Some (v', px') \<longrightarrow>
                \<not> fge v' v) \<and>
             (\<forall>(m', offer') \<in> set post. \<forall>v' px'.
                outcome self solve (copcar request) m' offer' = Some (v', px') \<longrightarrow>
                \<not> fgt v' v)))"
proof -
  have call: "\<forall>(m, offer) \<in> set (pairs request).
             \<not> skipped (copcar request) m offer \<longrightarrow>
             (\<exists>result. minimize_call self solve (copcar request) m offer = Inr result \<and>
                (res_success result \<longrightarrow> fgt (fneg (res_fun result)) NegInf))"
  proof (intro ballI, clarify)
    fix m offer
    assume "(m, offer) \<in> set (pairs request)"
    then have "m \<in> set (models request)" and "offer \<in> set (available_offers m)"
      by (simp_all add: pairs_iff)
    with assms(1) have "copcar request > 0" and "price offer > 0"
      by (auto simp: valid_OptimizationRequest_def valid_ModelInput_def valid_Offer_def
          list_all_iff)
    with assms(2) show
      "\<exists>result. minimize_call self solve (copcar request) m offer = Inr result \<and>
                (res_success result \<longrightarrow> fgt (fneg (res_fun result)) NegInf)"
      by (rule bounded_solver_call)
  qed
  from optimize_offers_outcomes [OF call] show ?thesis
  proof (elim disjE conjE exE)
    assume "\<forall>(m, offer) \<in> set (pairs request).
              outcome self solve (copcar request) m offer = None"
      and "optimize_offers self solve request =
             Inl (HTTPException 500 ''No suitable offer found'')"
    then show ?thesis by auto
  next
    fix pre m offer post v px
    assume sel: "pairs request = pre @ (m, offer) # post"
      "outcome self solve (copcar request) m offer = Some (v, px)"
      "optimize_offers self solve request =
               Inr \<lparr>resp_customer_id = customer_id request,
                    resp_copcar = copcar request,
                    opt_profit = v,
                    expected_profit = copcar request - price offer,
                    resp_model_name = model_name m,
                    resp_offer_name = offer_name offer,
                    offer_price = px,
                    actual_offer_price = price offer,
                    offer_volume = volume offer\<rparr>"
      "\<forall>(m', offer') \<in> set pre. \<forall>v' px'.
                outcome self solve (copcar request) m' offer' = Some (v', px') \<longrightarrow>
                \<not> fge v' v"
      "\<forall>(m', offer') \<in> set post. \<forall>v' px'.
                outcome self solve (copcar request) m' offer' = Some (v', px') \<longrightarrow>
                \<not> fgt v' v"
    from sel(1) have "(m, offer) \<in> set (pairs request)" by simp
    with sel(2) have "\<not> (\<forall>(m, offer) \<in> set (pairs request).
              outcome self solve (copcar request) m offer = None)"
      by force
    moreover from sel have "\<exists>pre m offer post v px.
             pairs request = pre @ (m, offer) # post \<and>
             outcome self solve (copcar request) m offer = Some (v, px) \<and>
             optimize_offers self solve request =
               Inr \<lparr>resp_customer_id = customer_id request,
                    resp_copcar = copcar request,
                    opt_profit = v,
                    expected_profit = copcar request - price offer,
                    resp_model_name = model_name m,
                    resp_offer_name = offer_name offer,
                    offer_price = px,
                    actual_offer_price = price offer,
                    offer_volume = volume offer\<rparr> \<and>
             (\<forall>(m', offer') \<in> set pre. \<forall>v' px'.
                outcome self solve (copcar request) m' offer' = Some (v', px') \<longrightarrow>
                \<not> fge v' v) \<and>
             (\<forall>(m', offer') \<in> set post. \<forall>v' px'.
                outcome self solve (copcar request) m' offer' = Some (v', px') \<longrightarrow>
                \<not> fgt v' v)"
      by blast
    ultimately show ?thesis using sel(3) by simp
  qed
qed

theorem no_suitable_offer_iff_witness:
  "valid_OptimizationRequest infeasible_request \<and>
   valid_OptimizationRequest retention_request \<and>
   bounded_solver guess_solver \<and>
   optimize_offers optimizer guess_solver infeasible_request =
     Inl (HTTPException 500 ''No suitable offer found'') \<and>
   optimize_offers optimizer guess_solver retention_request =
     Inr \<lparr>resp_customer_id = ''CUST002'', resp_copcar = 200,
          opt_profit = Fin (19.4285 + 240 / (1 + exp (- (19 / 8)))),
          expected_profit = 50, resp_model_name = ''churn_predictor'',
          resp_offer_name = ''Retention Offer 2'', offer_price = 105,
          actual_offer_price = 150, offer_volume = 200\<rparr> \<and>
   optimize_offers optimizer guess_solver retention_request \<noteq>
     Inl (HTTPException 500 ''No suitable offer found'')"
  using no_suitable_offer_iff [OF infeasible_request_valid guess_solver_bounded, of optimizer]
    infeasible_request_outcome
    no_suitable_offer_iff [OF retention_request_valid guess_solver_bounded, of optimizer]
    retention_request_outcome retention_request_result
    infeasible_request_valid retention_request_valid guess_solver_bounded
  by simp

text \<open>
  C9. With a deterministic solver, two calls of the endpoint in a row on the same request
  return the same result, whatever state the first call leaves behind the solver; and so
  do any two calls on the same request made with the same optimizer object. Equal results
  are the same response, hence the same model name, offer name and optimized price, or the
  same failure. The assumption is needed: \<open>alternating_solver_calls_differ\<close>.
\<close>

theorem optimize_offers_deterministic:
  assumes "deterministic_solver solve"
  shows "fst (optimize_offer solve request (snd (optimize_offer solve request w))) =
           fst (optimize_offer solve request w) \<and>
         (\<forall>w'. the_optimizer w' = the_optimizer w \<longrightarrow>
               fst (optimize_offer solve request w') = fst (optimize_offer solve request w))"
proof -
  have same: "fst (optimize_offer solve request w') = fst (optimize_offer solve request w)"
    if "the_optimizer w' = the_optimizer w" for w'
    using that
      optimize_offers_st_fst [OF assms, of "the_optimizer w" request "solver_state w'"
        "solver_state w"]
      optimize_offers_st_fst [OF assms, of "the_optimizer w" request "solver_state w"
        "solver_state w"]
    by (simp add: optimize_offer_fst)
  from same [OF optimize_offer_keeps_optimizer] same show ?thesis
    by blast
qed

theorem optimize_offers_deterministic_witness:
  "deterministic_solver counting_solver \<and>
   fst (optimize_offer counting_solver tie_request
          \<lparr>the_optimizer = optimizer, solver_state = 0\<rparr>) = Inr tie_response \<and>
   fst (optimize_offer counting_solver tie_request
          (snd (optimize_offer counting_solver tie_request
             \<lparr>the_optimizer = optimizer, solver_state = 0\<rparr>))) = Inr tie_response"
  using optimize_offers_deterministic [OF counting_solver_deterministic, of tie_request
      "\<lparr>the_optimizer = optimizer, solver_state = 0\<rparr>"]
    counting_solver_deterministic counting_solver_tie_request [of 0]
  by simp

text \<open>
  C10. An offer of a model that is not of category retention is tried even when its catalog
  price is at least \<open>copcar\<close>. When it is the only offer of the request and the solver
  succeeds on it with a score above negative infinity, it is selected: the response has
  \<open>actual_offer_price \<ge> copcar\<close> and \<open>expected_profit \<le> 0\<close>.
\<close>

theorem non_retention_offer_not_excluded:
  assumes "model_category model \<noteq> RETENTION"
    and "price offer \<ge> c"
    and "available_offers model = [offer]"
    and "minimize_call self solve c model offer = Inr result"
    and "res_success result"
    and "fgt (fneg (res_fun result)) NegInf"
  shows "optimize_offers self solve \<lparr>customer_id = cid, copcar = c, models = [model]\<rparr> =
           Inr \<lparr>resp_customer_id = cid,
                resp_copcar = c,
                opt_profit = fneg (res_fun result),
                expected_profit = c - price offer,
                resp_model_name = model_name model,
                resp_offer_name = offer_name offer,
                offer_price = res_x result,
                actual_offer_price = price offer,
                offer_volume = volume offer\<rparr> \<and>
         price offer \<ge> c \<and> c - price offer \<le> 0"
  using assms
  by (simp add: optimize_offers_def offer_step_def skipped_def initial_best_def)

theorem non_retention_offer_not_excluded_witness:
  "optimize_offers optimizer guess_solver costly_growth_request =
     Inr \<lparr>resp_customer_id = ''CUST003'', resp_copcar = 200,
          opt_profit = Fin (1636 / 145), expected_profit = - 50,
          resp_model_name = ''upsell_predictor'', resp_offer_name = ''Growth Offer 1'',
          offer_price = 145, actual_offer_price = 250, offer_volume = 200\<rparr> \<and>
   (250 :: real) \<ge> 200"
  using non_retention_offer_not_excluded [OF _ _ _ costly_growth_call, of "''CUST003''"]
  by (simp add: costly_growth_request_def)

end
